theory Spec2Isabelle
  imports Complex_Main
begin

section \<open>Effects: exceptions and mutable state\<close>

text \<open>
  Every call the layer makes (a sub-module, a \<^verbatim>\<open>torch\<close> function, tensor addition) is
  Python code that may raise and may change state outside the layer, such as the
  random generator that dropout draws from. A computation is therefore a function from the
  state before to an outcome and the state after; the outcome is \<open>Inl\<close> of the exception
  raised or \<open>Inr\<close> of the value returned.
\<close>

datatype error = AssertionError | OtherError string

type_synonym ('a, 's) eff = "'s \<Rightarrow> (error + 'a) \<times> 's"

definition ereturn :: "'a \<Rightarrow> ('a, 's) eff" where
  "ereturn a = (\<lambda>s. (Inr a, s))"

definition eraise :: "error \<Rightarrow> ('a, 's) eff" where
  "eraise e = (\<lambda>s. (Inl e, s))"

text \<open>Sequencing: an exception of the first computation ends the whole, in the state it left.\<close>

definition ebind :: "('a, 's) eff \<Rightarrow> ('a \<Rightarrow> ('b, 's) eff) \<Rightarrow> ('b, 's) eff" where
  "ebind m f = (\<lambda>s. case m s of (Inl e, s') \<Rightarrow> (Inl e, s') | (Inr a, s') \<Rightarrow> f a s')"

definition succeeds :: "('a, 's) eff \<Rightarrow> 's \<Rightarrow> bool" where
  "succeeds m s \<longleftrightarrow> (\<exists>a s'. m s = (Inr a, s'))"

section \<open>The external collaborators\<close>

text \<open>
  \<^verbatim>\<open>F.dropout(x, p=..., training=...)\<close> and the tensor addition behind \<^verbatim>\<open>+\<close> belong to
  \<^verbatim>\<open>torch\<close>; they are parameters of the model. \<open>'t\<close> is the type of tensors.
\<close>

record ('t, 's) Torch =
  F_dropout :: "'t \<Rightarrow> real \<Rightarrow> bool \<Rightarrow> ('t, 's) eff"
  tensor_add :: "'t \<Rightarrow> 't \<Rightarrow> ('t, 's) eff"

text \<open>
  The constructors the two \<^verbatim>\<open>__init__\<close> methods call: \<^verbatim>\<open>utils.get_activation_fn(name)\<close>,
  \<^verbatim>\<open>MultiheadAttention(embed_dim, num_heads, dropout, add_bias_kv, add_zero_attn, self_attention)\<close>,
  \<^verbatim>\<open>LayerNorm(dim, export)\<close> and \<^verbatim>\<open>nn.Linear(in_features, out_features)\<close>. Each yields the
  forward function of the module it builds. The attention forward takes
  \<^verbatim>\<open>query, key, value, key_padding_mask, need_weights, attn_mask\<close> and returns the pair of the
  output and the optional attention weights.
\<close>

type_synonym ('t, 's) unary = "'t \<Rightarrow> ('t, 's) eff"

type_synonym ('t, 's) attention =
  "'t \<Rightarrow> 't \<Rightarrow> 't \<Rightarrow> 't option \<Rightarrow> bool \<Rightarrow> 't option \<Rightarrow> ('t \<times> 't option, 's) eff"

record ('t, 's) Modules =
  get_activation_fn :: "string \<Rightarrow> (('t, 's) unary, 's) eff"
  MultiheadAttention :: "int \<Rightarrow> int \<Rightarrow> real \<Rightarrow> bool \<Rightarrow> bool \<Rightarrow> bool \<Rightarrow> (('t, 's) attention, 's) eff"
  LayerNorm :: "int \<Rightarrow> bool \<Rightarrow> (('t, 's) unary, 's) eff"
  Linear :: "int \<Rightarrow> int \<Rightarrow> (('t, 's) unary, 's) eff"

section \<open>The data model\<close>

text \<open>The arguments of \<^verbatim>\<open>TransformerSentenceEncoderLayer.__init__\<close>, with their defaults below.\<close>

record LayerConfig =
  embedding_dim :: int
  ffn_embedding_dim :: int
  num_attention_heads :: int
  dropout :: real
  attention_dropout :: real
  activation_dropout :: real
  activation_fn :: string
  add_bias_kv :: bool
  add_zero_attn :: bool
  export :: bool
  self_attn_adapter_dim :: "int option"
  ffn_adapter_dim :: "int option"

definition default_config :: LayerConfig where
  "default_config =
     \<lparr>embedding_dim = 768, ffn_embedding_dim = 3072, num_attention_heads = 8,
      dropout = 0.1, attention_dropout = 0.1, activation_dropout = 0.1,
      activation_fn = ''relu'', add_bias_kv = False, add_zero_attn = False, export = False,
      self_attn_adapter_dim = None, ffn_adapter_dim = None\<rparr>"

text \<open>The attributes of an \<^verbatim>\<open>Adapter\<close>.\<close>

record ('t, 's) Adapter =
  fc1 :: "('t, 's) unary"
  fc2 :: "('t, 's) unary"
  activation_fn :: "('t, 's) unary"

text \<open>
  The attributes of a \<^verbatim>\<open>TransformerSentenceEncoderLayer\<close>. \<open>training\<close> is the mode flag of
  \<^verbatim>\<open>nn.Module\<close>. An adapter attribute that was never assigned is \<open>None\<close>: this is what
  \<^verbatim>\<open>hasattr\<close> tests.
\<close>

record ('t, 's) TransformerSentenceEncoderLayer =
  training :: bool
  embedding_dim :: int
  dropout :: real
  activation_dropout :: real
  activation_fn :: "('t, 's) unary"
  self_attn :: "('t, 's) attention"
  self_attn_layer_norm :: "('t, 's) unary"
  fc1 :: "('t, 's) unary"
  fc2 :: "('t, 's) unary"
  final_layer_norm :: "('t, 's) unary"
  self_attn_adapter :: "('t, 's) Adapter option"
  ff_adapter :: "('t, 's) Adapter option"

section \<open>Adapter\<close>

definition Adapter_init :: "('t, 's) Modules \<Rightarrow> int \<Rightarrow> int \<Rightarrow> string \<Rightarrow> (('t, 's) Adapter, 's) eff" where
  "Adapter_init E embedding_dim' adapter_dim activation_fn' =
     ebind (Linear E embedding_dim' adapter_dim) (\<lambda>l1.
     ebind (Linear E adapter_dim embedding_dim') (\<lambda>l2.
     ebind (get_activation_fn E activation_fn') (\<lambda>act.
     ereturn \<lparr>Adapter.fc1 = l1, fc2 = l2, activation_fn = act\<rparr>)))"

text \<open>\<^verbatim>\<open>return self.fc2(self.activation_fn(self.fc1(x))) + x\<close>\<close>

definition Adapter_forward :: "('t, 's) Torch \<Rightarrow> ('t, 's) Adapter \<Rightarrow> 't \<Rightarrow> ('t, 's) eff" where
  "Adapter_forward T a x =
     ebind (Adapter.fc1 a x) (\<lambda>h.
     ebind (Adapter.activation_fn a h) (\<lambda>h.
     ebind (Adapter.fc2 a h) (\<lambda>h.
     tensor_add T h x)))"

section \<open>TransformerSentenceEncoderLayer\<close>

text \<open>
  \<^verbatim>\<open>if dim: self.adapter = Adapter(self.embedding_dim, dim, activation_fn)\<close>: \<^verbatim>\<open>None\<close> and
  \<^verbatim>\<open>0\<close> are the falsy values of an optional integer.
\<close>

definition build_adapter ::
  "('t, 's) Modules \<Rightarrow> int \<Rightarrow> int option \<Rightarrow> string \<Rightarrow> (('t, 's) Adapter option, 's) eff" where
  "build_adapter E embedding_dim' adapter_dim activation_fn' =
     (case adapter_dim of
        None \<Rightarrow> ereturn None
      | Some d \<Rightarrow>
          if d \<noteq> 0
          then ebind (Adapter_init E embedding_dim' d activation_fn') (\<lambda>a. ereturn (Some a))
          else ereturn None)"

definition TransformerSentenceEncoderLayer_init ::
  "('t, 's) Modules \<Rightarrow> LayerConfig \<Rightarrow> (('t, 's) TransformerSentenceEncoderLayer, 's) eff" where
  "TransformerSentenceEncoderLayer_init E c =
     ebind (get_activation_fn E (LayerConfig.activation_fn c)) (\<lambda>act.
     ebind (MultiheadAttention E (LayerConfig.embedding_dim c) (num_attention_heads c)
              (attention_dropout c) (add_bias_kv c) (add_zero_attn c) True) (\<lambda>attn.
     ebind (LayerNorm E (LayerConfig.embedding_dim c) (export c)) (\<lambda>ln1.
     ebind (Linear E (LayerConfig.embedding_dim c) (ffn_embedding_dim c)) (\<lambda>l1.
     ebind (Linear E (ffn_embedding_dim c) (LayerConfig.embedding_dim c)) (\<lambda>l2.
     ebind (LayerNorm E (LayerConfig.embedding_dim c) (export c)) (\<lambda>ln2.
     ebind (build_adapter E (LayerConfig.embedding_dim c) (self_attn_adapter_dim c)
              (LayerConfig.activation_fn c)) (\<lambda>a1.
     ebind (build_adapter E (LayerConfig.embedding_dim c) (ffn_adapter_dim c)
              (LayerConfig.activation_fn c)) (\<lambda>a2.
     ereturn
       \<lparr>training = True,
        embedding_dim = LayerConfig.embedding_dim c,
        dropout = LayerConfig.dropout c,
        activation_dropout = LayerConfig.activation_dropout c,
        activation_fn = act,
        self_attn = attn,
        self_attn_layer_norm = ln1,
        fc1 = l1,
        fc2 = l2,
        final_layer_norm = ln2,
        self_attn_adapter = a1,
        ff_adapter = a2\<rparr>))))))))"

text \<open>\<^verbatim>\<open>if hasattr(self, 'adapter'): x = self.adapter(x)\<close>\<close>

definition apply_adapter :: "('t, 's) Torch \<Rightarrow> ('t, 's) Adapter option \<Rightarrow> 't \<Rightarrow> ('t, 's) eff" where
  "apply_adapter T adapter x =
     (case adapter of None \<Rightarrow> ereturn x | Some a \<Rightarrow> Adapter_forward T a x)"

definition forward ::
  "('t, 's) Torch \<Rightarrow> ('t, 's) TransformerSentenceEncoderLayer \<Rightarrow>
   't \<Rightarrow> 't option \<Rightarrow> 't option \<Rightarrow> 't option \<Rightarrow> ('t \<times> 't option, 's) eff" where
  "forward T self x self_attn_mask self_attn_padding_mask extra_attention_mask =
     (if self_attn_mask \<noteq> None then eraise AssertionError
      else
        let residual = x in
        ebind (self_attn self x x x self_attn_padding_mask False extra_attention_mask) (\<lambda>(x, attn).
        ebind (apply_adapter T (self_attn_adapter self) x) (\<lambda>x.
        ebind (F_dropout T x (dropout self) (training self)) (\<lambda>x.
        ebind (tensor_add T residual x) (\<lambda>x.
        ebind (self_attn_layer_norm self x) (\<lambda>x.
        let residual = x in
        ebind (fc1 self x) (\<lambda>x.
        ebind (activation_fn self x) (\<lambda>x.
        ebind (F_dropout T x (activation_dropout self) (training self)) (\<lambda>x.
        ebind (fc2 self x) (\<lambda>x.
        ebind (F_dropout T x (dropout self) (training self)) (\<lambda>x.
        ebind (apply_adapter T (ff_adapter self) x) (\<lambda>x.
        ebind (tensor_add T residual x) (\<lambda>x.
        ebind (final_layer_norm self x) (\<lambda>x.
        ereturn (x, attn)))))))))))))))"

section \<open>The orders of operations the specification describes\<close>

text \<open>
  The forward pass as the ordering rule of the specification words it: the adapter before
  the output dropout and before the residual add, on each of the two sub-blocks. It differs from
  \<open>forward\<close> in the feed-forward sub-block only, where the adapter and the output dropout
  change places.
\<close>

definition forward_adapters_before_dropout ::
  "('t, 's) Torch \<Rightarrow> ('t, 's) TransformerSentenceEncoderLayer \<Rightarrow>
   't \<Rightarrow> 't option \<Rightarrow> 't option \<Rightarrow> 't option \<Rightarrow> ('t \<times> 't option, 's) eff" where
  "forward_adapters_before_dropout T self x self_attn_mask self_attn_padding_mask extra_attention_mask =
     (if self_attn_mask \<noteq> None then eraise AssertionError
      else
        let residual = x in
        ebind (self_attn self x x x self_attn_padding_mask False extra_attention_mask) (\<lambda>(x, attn).
        ebind (apply_adapter T (self_attn_adapter self) x) (\<lambda>x.
        ebind (F_dropout T x (dropout self) (training self)) (\<lambda>x.
        ebind (tensor_add T residual x) (\<lambda>x.
        ebind (self_attn_layer_norm self x) (\<lambda>x.
        let residual = x in
        ebind (fc1 self x) (\<lambda>x.
        ebind (activation_fn self x) (\<lambda>x.
        ebind (F_dropout T x (activation_dropout self) (training self)) (\<lambda>x.
        ebind (fc2 self x) (\<lambda>x.
        ebind (apply_adapter T (ff_adapter self) x) (\<lambda>x.
        ebind (F_dropout T x (dropout self) (training self)) (\<lambda>x.
        ebind (tensor_add T residual x) (\<lambda>x.
        ebind (final_layer_norm self x) (\<lambda>x.
        ereturn (x, attn)))))))))))))))"

text \<open>The forward pass with step 4 (the self-attention-side adapter) left out.\<close>

definition forward_without_self_attn_adapter ::
  "('t, 's) Torch \<Rightarrow> ('t, 's) TransformerSentenceEncoderLayer \<Rightarrow>
   't \<Rightarrow> 't option \<Rightarrow> 't option \<Rightarrow> 't option \<Rightarrow> ('t \<times> 't option, 's) eff" where
  "forward_without_self_attn_adapter T self x self_attn_mask self_attn_padding_mask extra_attention_mask =
     (if self_attn_mask \<noteq> None then eraise AssertionError
      else
        let residual = x in
        ebind (self_attn self x x x self_attn_padding_mask False extra_attention_mask) (\<lambda>(x, attn).
        ebind (F_dropout T x (dropout self) (training self)) (\<lambda>x.
        ebind (tensor_add T residual x) (\<lambda>x.
        ebind (self_attn_layer_norm self x) (\<lambda>x.
        let residual = x in
        ebind (fc1 self x) (\<lambda>x.
        ebind (activation_fn self x) (\<lambda>x.
        ebind (F_dropout T x (activation_dropout self) (training self)) (\<lambda>x.
        ebind (fc2 self x) (\<lambda>x.
        ebind (F_dropout T x (dropout self) (training self)) (\<lambda>x.
        ebind (apply_adapter T (ff_adapter self) x) (\<lambda>x.
        ebind (tensor_add T residual x) (\<lambda>x.
        ebind (final_layer_norm self x) (\<lambda>x.
        ereturn (x, attn))))))))))))))"

text \<open>The forward pass with step 10 (the feed-forward-side adapter) left out.\<close>

definition forward_without_ff_adapter ::
  "('t, 's) Torch \<Rightarrow> ('t, 's) TransformerSentenceEncoderLayer \<Rightarrow>
   't \<Rightarrow> 't option \<Rightarrow> 't option \<Rightarrow> 't option \<Rightarrow> ('t \<times> 't option, 's) eff" where
  "forward_without_ff_adapter T self x self_attn_mask self_attn_padding_mask extra_attention_mask =
     (if self_attn_mask \<noteq> None then eraise AssertionError
      else
        let residual = x in
        ebind (self_attn self x x x self_attn_padding_mask False extra_attention_mask) (\<lambda>(x, attn).
        ebind (apply_adapter T (self_attn_adapter self) x) (\<lambda>x.
        ebind (F_dropout T x (dropout self) (training self)) (\<lambda>x.
        ebind (tensor_add T residual x) (\<lambda>x.
        ebind (self_attn_layer_norm self x) (\<lambda>x.
        let residual = x in
        ebind (fc1 self x) (\<lambda>x.
        ebind (activation_fn self x) (\<lambda>x.
        ebind (F_dropout T x (activation_dropout self) (training self)) (\<lambda>x.
        ebind (fc2 self x) (\<lambda>x.
        ebind (F_dropout T x (dropout self) (training self)) (\<lambda>x.
        ebind (tensor_add T residual x) (\<lambda>x.
        ebind (final_layer_norm self x) (\<lambda>x.
        ereturn (x, attn))))))))))))))"

section \<open>Recording the calls\<close>

text \<open>
  To speak about which calls a run makes, and in which order, every collaborator is wrapped
  so that it appends its name to a log kept beside the state. The wrapped collaborator
  behaves as the original on the state and the result.
\<close>

datatype adapter_part = Part_fc1 | Part_activation_fn | Part_fc2

datatype event =
    Call_self_attn
  | Call_self_attn_adapter adapter_part
  | Call_F_dropout real bool
  | Call_tensor_add
  | Call_self_attn_layer_norm
  | Call_fc1
  | Call_activation_fn
  | Call_fc2
  | Call_ff_adapter adapter_part
  | Call_final_layer_norm

definition logged :: "event \<Rightarrow> ('a, 's) eff \<Rightarrow> ('a, 's \<times> event list) eff" where
  "logged ev m = (\<lambda>(s, calls). case m s of (r, s') \<Rightarrow> (r, (s', calls @ [ev])))"

definition traced_torch :: "('t, 's) Torch \<Rightarrow> ('t, 's \<times> event list) Torch" where
  "traced_torch T =
     \<lparr>F_dropout = (\<lambda>x p t. logged (Call_F_dropout p t) (F_dropout T x p t)),
      tensor_add = (\<lambda>x y. logged Call_tensor_add (tensor_add T x y))\<rparr>"

definition traced_adapter ::
  "(adapter_part \<Rightarrow> event) \<Rightarrow> ('t, 's) Adapter \<Rightarrow> ('t, 's \<times> event list) Adapter" where
  "traced_adapter tag a =
     \<lparr>Adapter.fc1 = (\<lambda>x. logged (tag Part_fc1) (Adapter.fc1 a x)),
      fc2 = (\<lambda>x. logged (tag Part_fc2) (Adapter.fc2 a x)),
      activation_fn = (\<lambda>x. logged (tag Part_activation_fn) (Adapter.activation_fn a x))\<rparr>"

definition traced_layer ::
  "('t, 's) TransformerSentenceEncoderLayer \<Rightarrow> ('t, 's \<times> event list) TransformerSentenceEncoderLayer" where
  "traced_layer L =
     \<lparr>training = training L,
      embedding_dim = embedding_dim L,
      dropout = dropout L,
      activation_dropout = activation_dropout L,
      activation_fn = (\<lambda>x. logged Call_activation_fn (activation_fn L x)),
      self_attn = (\<lambda>q k v pm nw am. logged Call_self_attn (self_attn L q k v pm nw am)),
      self_attn_layer_norm = (\<lambda>x. logged Call_self_attn_layer_norm (self_attn_layer_norm L x)),
      fc1 = (\<lambda>x. logged Call_fc1 (fc1 L x)),
      fc2 = (\<lambda>x. logged Call_fc2 (fc2 L x)),
      final_layer_norm = (\<lambda>x. logged Call_final_layer_norm (final_layer_norm L x)),
      self_attn_adapter = map_option (traced_adapter Call_self_attn_adapter) (self_attn_adapter L),
      ff_adapter = map_option (traced_adapter Call_ff_adapter) (ff_adapter L)\<rparr>"

text \<open>The calls one application of an optional adapter makes.\<close>

definition adapter_calls :: "(adapter_part \<Rightarrow> event) \<Rightarrow> ('t, 's) Adapter option \<Rightarrow> event list" where
  "adapter_calls tag adapter =
     (case adapter of
        None \<Rightarrow> []
      | Some a \<Rightarrow> [tag Part_fc1, tag Part_activation_fn, tag Part_fc2, Call_tensor_add])"

text \<open>
  A computation over the state with the log simulates one over the plain state when it has the
  same outcome and leaves the same state, and only appends to the log; it extends the log when
  it only appends to it.
\<close>

definition simulates :: "('a, 's \<times> event list) eff \<Rightarrow> ('a, 's) eff \<Rightarrow> bool" where
  "simulates m' m \<longleftrightarrow> (\<forall>s cs. \<exists>tr. m' (s, cs) = (fst (m s), (snd (m s), cs @ tr)))"

definition extends :: "('a, 's \<times> event list) eff \<Rightarrow> bool" where
  "extends m' \<longleftrightarrow> (\<forall>s cs. \<exists>r s' tr. m' (s, cs) = (r, (s', cs @ tr)))"

section \<open>Assumptions on the collaborators\<close>

text \<open>
  A collaborator that returns on every input and in every state. Of dropout this is asked
  only with the two probabilities and the mode the layer calls it with.
\<close>

definition total :: "('a \<Rightarrow> ('b, 's) eff) \<Rightarrow> bool" where
  "total f \<longleftrightarrow> (\<forall>x s. succeeds (f x) s)"

definition adapter_never_raises :: "('t, 's) Adapter option \<Rightarrow> bool" where
  "adapter_never_raises adapter \<longleftrightarrow>
     (case adapter of
        None \<Rightarrow> True
      | Some a \<Rightarrow> total (Adapter.fc1 a) \<and> total (Adapter.activation_fn a) \<and> total (Adapter.fc2 a))"

definition never_raises ::
  "('t, 's) Torch \<Rightarrow> ('t, 's) TransformerSentenceEncoderLayer \<Rightarrow> bool" where
  "never_raises T L \<longleftrightarrow>
     (\<forall>q k v pm nw am s. succeeds (self_attn L q k v pm nw am) s) \<and>
     (\<forall>x s. succeeds (F_dropout T x (dropout L) (training L)) s) \<and>
     (\<forall>x s. succeeds (F_dropout T x (activation_dropout L) (training L)) s) \<and>
     (\<forall>x y s. succeeds (tensor_add T x y) s) \<and>
     total (self_attn_layer_norm L) \<and> total (fc1 L) \<and> total (activation_fn L) \<and>
     total (fc2 L) \<and> total (final_layer_norm L) \<and>
     adapter_never_raises (self_attn_adapter L) \<and> adapter_never_raises (ff_adapter L)"

text \<open>A computation whose outcome does not depend on the state it starts in.\<close>

definition state_independent :: "('a, 's) eff \<Rightarrow> bool" where
  "state_independent m \<longleftrightarrow> (\<forall>s s'. fst (m s) = fst (m s'))"

definition adapter_deterministic :: "('t, 's) Adapter option \<Rightarrow> bool" where
  "adapter_deterministic adapter \<longleftrightarrow>
     (case adapter of
        None \<Rightarrow> True
      | Some a \<Rightarrow>
          (\<forall>x. state_independent (Adapter.fc1 a x)) \<and>
          (\<forall>x. state_independent (Adapter.activation_fn a x)) \<and>
          (\<forall>x. state_independent (Adapter.fc2 a x)))"

text \<open>
  The collaborators are deterministic functions of their inputs and parameters; dropout is
  asked to be so in inference mode only (\<open>training = False\<close>).
\<close>

definition deterministic_in_inference ::
  "('t, 's) Torch \<Rightarrow> ('t, 's) TransformerSentenceEncoderLayer \<Rightarrow> bool" where
  "deterministic_in_inference T L \<longleftrightarrow>
     (\<forall>q k v pm nw am. state_independent (self_attn L q k v pm nw am)) \<and>
     (\<forall>x p. state_independent (F_dropout T x p False)) \<and>
     (\<forall>x y. state_independent (tensor_add T x y)) \<and>
     (\<forall>x. state_independent (self_attn_layer_norm L x)) \<and>
     (\<forall>x. state_independent (fc1 L x)) \<and>
     (\<forall>x. state_independent (activation_fn L x)) \<and>
     (\<forall>x. state_independent (fc2 L x)) \<and>
     (\<forall>x. state_independent (final_layer_norm L x)) \<and>
     adapter_deterministic (self_attn_adapter L) \<and> adapter_deterministic (ff_adapter L)"

text \<open>
  Shapes. \<open>shape\<close> reads the shape of a tensor. A collaborator maps shape \<open>sh\<close> to shape
  \<open>sh'\<close> when on every tensor of shape \<open>sh\<close> it returns, with a tensor of shape \<open>sh'\<close>.
\<close>

definition maps_shape :: "('t \<Rightarrow> int list) \<Rightarrow> int list \<Rightarrow> int list \<Rightarrow> ('t, 's) unary \<Rightarrow> bool" where
  "maps_shape shape sh sh' f \<longleftrightarrow>
     (\<forall>x s. shape x = sh \<longrightarrow> (\<exists>y s'. f x s = (Inr y, s') \<and> shape y = sh'))"

text \<open>
  An adapter built for embedding dimension \<open>d\<close> and some bottleneck dimension \<open>a\<close>: the
  down-projection maps a trailing \<open>d\<close> to \<open>a\<close>, the nonlinearity keeps the shape, the
  up-projection maps the trailing \<open>a\<close> back to \<open>d\<close>.
\<close>

definition adapter_shape_contract ::
  "('t \<Rightarrow> int list) \<Rightarrow> int list \<Rightarrow> int \<Rightarrow> ('t, 's) Adapter option \<Rightarrow> bool" where
  "adapter_shape_contract shape lead d adapter \<longleftrightarrow>
     (case adapter of
        None \<Rightarrow> True
      | Some a \<Rightarrow>
          (\<exists>k. maps_shape shape (lead @ [d]) (lead @ [k]) (Adapter.fc1 a) \<and>
               maps_shape shape (lead @ [k]) (lead @ [k]) (Adapter.activation_fn a) \<and>
               maps_shape shape (lead @ [k]) (lead @ [d]) (Adapter.fc2 a)))"

text \<open>
  The interface the layer needs of its collaborators on an input of shape \<open>[n, b, d]\<close>, with
  \<open>d\<close> the embedding dimension of the layer and the two masks valid for that input:
  attention, the normalizations and the nonlinearity keep the shape, the two affine
  transforms go to some feed-forward dimension \<open>f\<close> and back, dropout keeps the shape when
  called as the layer calls it (output dropout with the layer's \<open>dropout\<close> on \<open>[n, b, d]\<close>,
  activation dropout with the layer's \<open>activation_dropout\<close> on \<open>[n, b, f]\<close>, both in the
  layer's mode), and tensors of equal shape add to a tensor of that shape.
\<close>

definition shape_contract ::
  "('t \<Rightarrow> int list) \<Rightarrow> ('t, 's) Torch \<Rightarrow> ('t, 's) TransformerSentenceEncoderLayer \<Rightarrow>
   't option \<Rightarrow> 't option \<Rightarrow> int \<Rightarrow> int \<Rightarrow> bool" where
  "shape_contract shape T L pm em n b \<longleftrightarrow>
     (\<forall>x s. shape x = [n, b, embedding_dim L] \<longrightarrow>
        (\<exists>y w s'. self_attn L x x x pm False em s = (Inr (y, w), s') \<and>
                  shape y = [n, b, embedding_dim L])) \<and>
     maps_shape shape [n, b, embedding_dim L] [n, b, embedding_dim L]
       (\<lambda>x. F_dropout T x (dropout L) (training L)) \<and>
     (\<forall>x y s. shape x = [n, b, embedding_dim L] \<and> shape y = [n, b, embedding_dim L] \<longrightarrow>
        (\<exists>z s'. tensor_add T x y s = (Inr z, s') \<and> shape z = [n, b, embedding_dim L])) \<and>
     maps_shape shape [n, b, embedding_dim L] [n, b, embedding_dim L] (self_attn_layer_norm L) \<and>
     maps_shape shape [n, b, embedding_dim L] [n, b, embedding_dim L] (final_layer_norm L) \<and>
     (\<exists>f. maps_shape shape [n, b, embedding_dim L] [n, b, f] (fc1 L) \<and>
          maps_shape shape [n, b, f] [n, b, f] (activation_fn L) \<and>
          maps_shape shape [n, b, f] [n, b, f]
            (\<lambda>x. F_dropout T x (activation_dropout L) (training L)) \<and>
          maps_shape shape [n, b, f] [n, b, embedding_dim L] (fc2 L)) \<and>
     adapter_shape_contract shape [n, b] (embedding_dim L) (self_attn_adapter L) \<and>
     adapter_shape_contract shape [n, b] (embedding_dim L) (ff_adapter L)"

section \<open>Two small instances\<close>

subsection \<open>Scalars\<close>

text \<open>
  Tensors are integers and the state is the state of a toy random generator, a counter:
  in training mode, with \<open>p > 0\<close>, dropout zeroes its input when the counter is odd, and
  advances the counter. Attention returns its query, and weights only when asked for them.
\<close>

definition ex_torch :: "(int, nat) Torch" where
  "ex_torch =
     \<lparr>F_dropout = (\<lambda>x p t. if t then (\<lambda>s. (Inr (if odd s \<and> 0 < p then 0 else x), Suc s)) else ereturn x),
      tensor_add = (\<lambda>x y. ereturn (x + y))\<rparr>"

definition ex_adapter :: "(int, nat) Adapter" where
  "ex_adapter =
     \<lparr>Adapter.fc1 = (\<lambda>x. ereturn (x + 1)),
      fc2 = (\<lambda>x. ereturn (2 * x)),
      activation_fn = (\<lambda>x. ereturn (max 0 x))\<rparr>"

definition ex_layer :: "(int, nat) TransformerSentenceEncoderLayer" where
  "ex_layer =
     \<lparr>training = True,
      embedding_dim = 1,
      dropout = 0.1,
      activation_dropout = 0.2,
      activation_fn = (\<lambda>x. ereturn (max 0 x)),
      self_attn = (\<lambda>q k v pm nw am. ereturn (q, if nw then Some q else None)),
      self_attn_layer_norm = (\<lambda>x. ereturn (x - 1)),
      fc1 = (\<lambda>x. ereturn (3 * x + 1)),
      fc2 = (\<lambda>x. ereturn (x - 4)),
      final_layer_norm = (\<lambda>x. ereturn (x - 2)),
      self_attn_adapter = Some ex_adapter,
      ff_adapter = Some ex_adapter\<rparr>"

text \<open>An adapter whose up-projection has zero weights and zero bias.\<close>

definition ex_zero_adapter :: "(int, nat) Adapter" where
  "ex_zero_adapter =
     \<lparr>Adapter.fc1 = (\<lambda>x. ereturn (x + 1)),
      fc2 = (\<lambda>x. ereturn 0),
      activation_fn = (\<lambda>x. ereturn (max 0 x))\<rparr>"

subsection \<open>Shapes only\<close>

text \<open>
  Tensors are reduced to their shapes. An affine transform and a normalization raise on a
  tensor whose trailing dimension is not theirs, attention on a query that is not of the form
  \<open>[n, b, d]\<close>, addition on operands of different shapes.
\<close>

definition sh_linear :: "int \<Rightarrow> int \<Rightarrow> (int list, nat) unary" where
  "sh_linear i o' x =
     (if x \<noteq> [] \<and> last x = i then ereturn (butlast x @ [o'])
      else eraise (OtherError ''size mismatch''))"

definition sh_norm :: "int \<Rightarrow> (int list, nat) unary" where
  "sh_norm d x =
     (if x \<noteq> [] \<and> last x = d then ereturn x else eraise (OtherError ''size mismatch''))"

definition sh_attention :: "int \<Rightarrow> (int list, nat) attention" where
  "sh_attention d q k v pm nw am =
     (if length q = 3 \<and> last q = d then ereturn (q, None)
      else eraise AssertionError)"

definition sh_torch :: "(int list, nat) Torch" where
  "sh_torch =
     \<lparr>F_dropout = (\<lambda>x p t. ereturn x),
      tensor_add = (\<lambda>x y. if x = y then ereturn x else eraise (OtherError ''size mismatch''))\<rparr>"

definition sh_modules :: "(int list, nat) Modules" where
  "sh_modules =
     \<lparr>get_activation_fn =
        (\<lambda>name. if name = ''relu'' \<or> name = ''gelu'' then ereturn ereturn
                 else eraise (OtherError ''--activation-fn not supported'')),
      MultiheadAttention = (\<lambda>d h p bias_kv zero_attn self_attention. ereturn (sh_attention d)),
      LayerNorm = (\<lambda>d e. ereturn (sh_norm d)),
      Linear = (\<lambda>i o'. ereturn (sh_linear i o'))\<rparr>"

text \<open>The scenario of the specification: dimension 4, adapters of bottleneck dimension 2.\<close>

definition sh_config :: LayerConfig where
  "sh_config =
     default_config\<lparr>LayerConfig.embedding_dim := 4, ffn_embedding_dim := 8,
       self_attn_adapter_dim := Some 2, ffn_adapter_dim := Some 2\<rparr>"

text \<open>A configuration without adapters: one dimension zero, the other absent.\<close>

definition sh_config_no_adapters :: LayerConfig where
  "sh_config_no_adapters =
     default_config\<lparr>LayerConfig.embedding_dim := 4, ffn_embedding_dim := 8,
       self_attn_adapter_dim := Some 0, ffn_adapter_dim := None\<rparr>"

definition sh_adapter :: "(int list, nat) Adapter" where
  "sh_adapter = \<lparr>Adapter.fc1 = sh_linear 4 2, fc2 = sh_linear 2 4, activation_fn = ereturn\<rparr>"

definition sh_layer :: "(int list, nat) TransformerSentenceEncoderLayer" where
  "sh_layer =
     \<lparr>training = True,
      embedding_dim = 4,
      dropout = 0.1,
      activation_dropout = 0.1,
      activation_fn = ereturn,
      self_attn = sh_attention 4,
      self_attn_layer_norm = sh_norm 4,
      fc1 = sh_linear 4 8,
      fc2 = sh_linear 8 4,
      final_layer_norm = sh_norm 4,
      self_attn_adapter = Some sh_adapter,
      ff_adapter = Some sh_adapter\<rparr>"

section \<open>Reasoning about computations\<close>

lemma ebind_ereturn [simp]: "ebind (ereturn a) f = f a"
  by (simp add: ebind_def ereturn_def)

lemma ebind_eraise [simp]: "ebind (eraise e) f = eraise e"
  by (simp add: ebind_def eraise_def)

lemma ereturn_apply [simp]: "ereturn a s = (Inr a, s)"
  by (simp add: ereturn_def)

lemma eraise_apply [simp]: "eraise e s = (Inl e, s)"
  by (simp add: eraise_def)

lemma ebind_Inr_iff:
  "ebind m f s = (Inr b, s'') \<longleftrightarrow> (\<exists>a s'. m s = (Inr a, s') \<and> f a s' = (Inr b, s''))"
  by (auto simp: ebind_def split: prod.splits sum.splits)

lemma ebind_Inr: "m s = (Inr a, s') \<Longrightarrow> ebind m f s = f a s'"
  by (simp add: ebind_def)

lemma ebind_Inl: "m s = (Inl e, s') \<Longrightarrow> ebind m f s = (Inl e, s')"
  by (simp add: ebind_def)

lemma succeeds_ebind:
  "succeeds m s \<Longrightarrow> (\<And>a s'. m s = (Inr a, s') \<Longrightarrow> succeeds (f a) s') \<Longrightarrow> succeeds (ebind m f) s"
  by (auto simp: succeeds_def ebind_def)

lemma succeeds_ereturn [simp]: "succeeds (ereturn a) s"
  by (simp add: succeeds_def)

lemma logged_Inr_iff [simp]:
  "logged ev m (s, cs) = (Inr a, (s', cs')) \<longleftrightarrow> m s = (Inr a, s') \<and> cs' = cs @ [ev]"
  by (auto simp: logged_def split: prod.splits)

lemma logged_apply: "logged ev m (s, cs) = (fst (m s), (snd (m s), cs @ [ev]))"
  by (simp add: logged_def split: prod.splits)

lemma succeeds_logged [simp]: "succeeds (logged ev m) (s, cs) \<longleftrightarrow> succeeds m s"
  by (auto simp: succeeds_def)

lemma traced_layer_simps:
  "training (traced_layer L) = training L"
  "dropout (traced_layer L) = dropout L"
  "activation_dropout (traced_layer L) = activation_dropout L"
  "activation_fn (traced_layer L) x = logged Call_activation_fn (activation_fn L x)"
  "self_attn (traced_layer L) q k v pm nw am = logged Call_self_attn (self_attn L q k v pm nw am)"
  "self_attn_layer_norm (traced_layer L) x =
     logged Call_self_attn_layer_norm (self_attn_layer_norm L x)"
  "fc1 (traced_layer L) x = logged Call_fc1 (fc1 L x)"
  "fc2 (traced_layer L) x = logged Call_fc2 (fc2 L x)"
  "final_layer_norm (traced_layer L) x = logged Call_final_layer_norm (final_layer_norm L x)"
  "self_attn_adapter (traced_layer L) =
     map_option (traced_adapter Call_self_attn_adapter) (self_attn_adapter L)"
  "ff_adapter (traced_layer L) = map_option (traced_adapter Call_ff_adapter) (ff_adapter L)"
  by (simp_all add: traced_layer_def)

lemma traced_torch_simps:
  "F_dropout (traced_torch T) x p t = logged (Call_F_dropout p t) (F_dropout T x p t)"
  "tensor_add (traced_torch T) x y = logged Call_tensor_add (tensor_add T x y)"
  by (simp_all add: traced_torch_def)

subsection \<open>Recording the calls changes neither the outcome nor the state\<close>

lemma simulates_logged: "simulates (logged ev m) m"
  by (auto simp: simulates_def logged_apply)

lemma simulates_ereturn: "simulates (ereturn a) (ereturn a)"
  by (simp add: simulates_def)

lemma simulates_eraise: "simulates (eraise e) (eraise e)"
  by (simp add: simulates_def)

lemma simulates_ebind:
  assumes "simulates m' m" and "\<And>a. simulates (f' a) (f a)"
  shows "simulates (ebind m' f') (ebind m f)"
  unfolding simulates_def
proof (intro allI)
  fix s cs
  from assms(1) obtain tr where m': "m' (s, cs) = (fst (m s), (snd (m s), cs @ tr))"
    unfolding simulates_def by blast
  show "\<exists>tr. ebind m' f' (s, cs) = (fst (ebind m f s), snd (ebind m f s), cs @ tr)"
  proof (cases "fst (m s)")
    case (Inl e)
    then have "m s = (Inl e, snd (m s))" by (metis prod.collapse)
    then show ?thesis using m' Inl by (auto simp: ebind_def split: prod.splits)
  next
    case (Inr a)
    then have ms: "m s = (Inr a, snd (m s))" by (metis prod.collapse)
    from assms(2) obtain tr' where
      "f' a (snd (m s), cs @ tr) = (fst (f a (snd (m s))), (snd (f a (snd (m s))), (cs @ tr) @ tr'))"
      unfolding simulates_def by blast
    then show ?thesis using m' Inr ms by (auto simp: ebind_def split: prod.splits)
  qed
qed

lemma simulates_Adapter_forward:
  "simulates (Adapter_forward (traced_torch T) (traced_adapter tag a) x) (Adapter_forward T a x)"
  unfolding Adapter_forward_def
  by (intro simulates_ebind) (simp_all add: traced_adapter_def traced_torch_def simulates_logged)

lemma simulates_apply_adapter:
  "simulates (apply_adapter (traced_torch T) (map_option (traced_adapter tag) adapter) x)
     (apply_adapter T adapter x)"
  by (cases adapter) (simp_all add: apply_adapter_def simulates_ereturn simulates_Adapter_forward)

lemma simulates_forward:
  "simulates (forward (traced_torch T) (traced_layer L) x m pm em) (forward T L x m pm em)"
proof (cases m)
  case None
  show ?thesis
    unfolding forward_def Let_def split_def traced_layer_simps traced_torch_simps
    by (simp add: None)
       (intro simulates_ebind simulates_ereturn simulates_apply_adapter simulates_logged)
next
  case (Some a)
  then show ?thesis by (simp add: forward_def simulates_eraise)
qed

lemma extends_logged: "extends (logged ev m)"
  by (auto simp: extends_def logged_apply)

lemma extends_ereturn: "extends (ereturn a)"
  by (simp add: extends_def)

lemma extends_ebind:
  assumes "extends m'" and "\<And>a. extends (f' a)"
  shows "extends (ebind m' f')"
  unfolding extends_def
proof (intro allI)
  fix s cs
  from assms(1) obtain r s1 tr where m': "m' (s, cs) = (r, (s1, cs @ tr))"
    unfolding extends_def by blast
  show "\<exists>r s' tr. ebind m' f' (s, cs) = (r, s', cs @ tr)"
  proof (cases r)
    case (Inl e)
    with m' show ?thesis by (auto simp: ebind_def)
  next
    case (Inr a)
    from assms(2) obtain r2 s2 tr2 where "f' a (s1, cs @ tr) = (r2, (s2, (cs @ tr) @ tr2))"
      unfolding extends_def by blast
    with m' Inr have "ebind m' f' (s, cs) = (r2, (s2, cs @ (tr @ tr2)))"
      by (simp add: ebind_def)
    then show ?thesis by blast
  qed
qed

lemma extends_apply_adapter:
  "extends (apply_adapter (traced_torch T) (map_option (traced_adapter tag) adapter) x)"
  by (cases adapter)
     (auto simp: apply_adapter_def Adapter_forward_def traced_adapter_def traced_torch_def
        intro!: extends_ereturn extends_ebind extends_logged)

lemma ebind_logged_first:
  assumes "\<And>a. extends (f' a)"
  shows "\<exists>r s' tr. ebind (logged ev m) f' (s, cs) = (r, (s', cs @ ev # tr))"
proof (cases "fst (m s)")
  case (Inl e)
  then show ?thesis by (simp add: ebind_def logged_apply)
next
  case (Inr a)
  from assms obtain r2 s2 tr2 where
    "f' a (snd (m s), cs @ [ev]) = (r2, (s2, (cs @ [ev]) @ tr2))"
    unfolding extends_def by blast
  with Inr have "ebind (logged ev m) f' (s, cs) = (r2, (s2, cs @ ev # tr2))"
    by (simp add: ebind_def logged_apply)
  then show ?thesis by blast
qed

lemma forward_traced_calls_self_attn:
  "\<exists>r s' tr. forward (traced_torch T) (traced_layer L) x None pm em (s, cs)
      = (r, (s', cs @ Call_self_attn # tr))"
  unfolding forward_def Let_def split_def traced_layer_simps traced_torch_simps
  by (simp, rule ebind_logged_first)
     (intro extends_ebind extends_ereturn extends_apply_adapter extends_logged)

lemma apply_adapter_traced_Inr_iff:
  "apply_adapter (traced_torch T) (map_option (traced_adapter tag) adapter) x (s, cs)
     = (Inr y, (s', cs'))
   \<longleftrightarrow> apply_adapter T adapter x s = (Inr y, s') \<and> cs' = cs @ adapter_calls tag adapter"
  by (cases adapter)
     (auto simp: apply_adapter_def adapter_calls_def Adapter_forward_def ebind_Inr_iff
        traced_adapter_def traced_torch_def)

section \<open>Adapter: the residual bottleneck transform\<close>

lemma Adapter_forward_Inr_iff:
  "Adapter_forward T a x s = (Inr y, s') \<longleftrightarrow>
    (\<exists>h1 s1 h2 s2 h3 s3.
       Adapter.fc1 a x s = (Inr h1, s1) \<and>
       Adapter.activation_fn a h1 s1 = (Inr h2, s2) \<and>
       Adapter.fc2 a h2 s2 = (Inr h3, s3) \<and>
       tensor_add T h3 x s3 = (Inr y, s'))"
  by (simp add: Adapter_forward_def ebind_Inr_iff)

lemma succeeds_Adapter_forward:
  assumes "\<And>x s. succeeds (Adapter.fc1 a x) s"
    and "\<And>x s. succeeds (Adapter.activation_fn a x) s"
    and "\<And>x s. succeeds (Adapter.fc2 a x) s"
    and "\<And>x y s. succeeds (tensor_add T x y) s"
  shows "succeeds (Adapter_forward T a x) s"
  unfolding Adapter_forward_def
  by (intro succeeds_ebind assms)

lemma succeeds_apply_adapter:
  assumes "adapter_never_raises adapter" and "\<And>x y s. succeeds (tensor_add T x y) s"
  shows "succeeds (apply_adapter T adapter x) s"
  using assms
  by (cases adapter)
     (simp_all add: apply_adapter_def adapter_never_raises_def total_def succeeds_Adapter_forward)

text \<open>
  C4. \<^verbatim>\<open>Adapter.forward(x)\<close> is \<open>up_project(nonlinearity(down_project(x))) + x\<close>. A call
  returns \<open>y\<close> exactly when the down-projection \<open>fc1\<close> returns on \<open>x\<close>, the nonlinearity on
  that, the up-projection \<open>fc2\<close> on that, and the sum of the up-projection's result and \<open>x\<close>
  is \<open>y\<close>, each step running in the state the step before left. For collaborators that are
  pure functions \<open>down\<close>, \<open>act\<close>, \<open>up\<close> and \<open>add\<close> the result is
  \<open>add (up (act (down x))) x\<close>. An input whose trailing dimension is not the embedding
  dimension makes \<open>fc1\<close> raise, and then the adapter raises.
\<close>

theorem Adapter_forward_residual_transform:
  "(Adapter_forward T a x s = (Inr y, s') \<longleftrightarrow>
      (\<exists>h1 s1 h2 s2 h3 s3.
         Adapter.fc1 a x s = (Inr h1, s1) \<and>
         Adapter.activation_fn a h1 s1 = (Inr h2, s2) \<and>
         Adapter.fc2 a h2 s2 = (Inr h3, s3) \<and>
         tensor_add T h3 x s3 = (Inr y, s'))) \<and>
   Adapter_forward
     \<lparr>F_dropout = d, tensor_add = (\<lambda>u v. ereturn (add u v))\<rparr>
     \<lparr>Adapter.fc1 = (\<lambda>u. ereturn (down u)), fc2 = (\<lambda>u. ereturn (up u)),
      activation_fn = (\<lambda>u. ereturn (act u))\<rparr> x s
     = (Inr (add (up (act (down x))) x), s)"
  by (intro conjI, rule Adapter_forward_Inr_iff) (simp add: Adapter_forward_def)

text \<open>
  C5. An adapter whose up-projection \<open>fc2\<close> returns an exact zero tensor on every input is
  the identity: \<^verbatim>\<open>Adapter.forward(x)\<close> returns \<open>x\<close>. The input is one the down-projection
  accepts, the nonlinearity returns on every input, and adding a zero tensor to \<open>x\<close> gives \<open>x\<close>
  (the arithmetic of the tensor elements is a parameter; \<open>is_zero\<close> recognises the zero
  tensors).
\<close>

theorem Adapter_forward_zero_up_projection:
  assumes "succeeds (Adapter.fc1 a x) s"
    and "\<And>h s. succeeds (Adapter.activation_fn a h) s"
    and "\<And>h s. \<exists>z s'. Adapter.fc2 a h s = (Inr z, s') \<and> is_zero z"
    and "\<And>z s. is_zero z \<Longrightarrow> tensor_add T z x s = (Inr x, s)"
  shows "\<exists>s'. Adapter_forward T a x s = (Inr x, s')"
proof -
  from assms(1) obtain h1 s1 where 1: "Adapter.fc1 a x s = (Inr h1, s1)"
    by (auto simp: succeeds_def)
  from assms(2) [of h1 s1] obtain h2 s2 where 2: "Adapter.activation_fn a h1 s1 = (Inr h2, s2)"
    by (auto simp: succeeds_def)
  from assms(3) [of h2 s2] obtain z s3 where 3: "Adapter.fc2 a h2 s2 = (Inr z, s3)"
    and z: "is_zero z"
    by blast
  from assms(4) [OF z] have 4: "tensor_add T z x s3 = (Inr x, s3)" .
  from 1 2 3 4 have "Adapter_forward T a x s = (Inr x, s3)"
    by (simp add: Adapter_forward_def ebind_Inr)
  then show ?thesis ..
qed

theorem Adapter_forward_zero_up_projection_witness:
  "\<exists>s'. Adapter_forward ex_torch ex_zero_adapter 7 0 = (Inr 7, s')"
  by (rule Adapter_forward_zero_up_projection [where is_zero = "\<lambda>z. z = 0"])
     (simp_all add: ex_torch_def ex_zero_adapter_def succeeds_def)

section \<open>The precondition of the forward pass\<close>

lemma succeeds_forward:
  assumes "never_raises T L"
  shows "succeeds (forward T L x None pm em) s"
proof -
  from assms have
    attn: "\<And>q k v pm nw am s. succeeds (self_attn L q k v pm nw am) s" and
    dr: "\<And>x s. succeeds (F_dropout T x (dropout L) (training L)) s"
      "\<And>x s. succeeds (F_dropout T x (activation_dropout L) (training L)) s" and
    add: "\<And>x y s. succeeds (tensor_add T x y) s" and
    tot: "\<And>x s. succeeds (self_attn_layer_norm L x) s" "\<And>x s. succeeds (fc1 L x) s"
      "\<And>x s. succeeds (activation_fn L x) s"
      "\<And>x s. succeeds (fc2 L x) s" "\<And>x s. succeeds (final_layer_norm L x) s" and
    ad: "adapter_never_raises (self_attn_adapter L)" "adapter_never_raises (ff_adapter L)"
    by (simp_all add: never_raises_def total_def)
  note ad' = succeeds_apply_adapter [OF ad(1) add] succeeds_apply_adapter [OF ad(2) add]
  show ?thesis
    unfolding forward_def
    by (simp add: Let_def split_def)
       (intro succeeds_ebind tot attn dr add ad' succeeds_ereturn)
qed

text \<open>
  C3. A call of \<open>forward\<close> with a general self-attention mask that is not \<open>None\<close> raises
  \<open>AssertionError\<close>, whatever the layer, the input, the two other masks and the state are, and
  leaves the state as it was. With the mask \<open>None\<close> the check passes and the computation goes
  on: a run whose collaborators never raise returns, and on every run, also one in which a
  collaborator raises, the first call made is the self-attention call. (The assertion is
  modelled as Python runs it by default, with assertions enabled.)
\<close>

theorem forward_precondition:
  "forward T L x (Some m) pm em s = (Inl AssertionError, s) \<and>
   (never_raises T L \<longrightarrow> succeeds (forward T L x None pm em) s) \<and>
   (\<exists>r s' tr. forward (traced_torch T) (traced_layer L) x None pm em (s, cs)
        = (r, (s', cs @ Call_self_attn # tr)))"
  by (intro conjI impI succeeds_forward forward_traced_calls_self_attn)
     (simp_all add: forward_def)

theorem forward_precondition_witness:
  "never_raises ex_torch ex_layer \<and>
   forward ex_torch ex_layer 5 (Some 0) None None 1 = (Inl AssertionError, 1) \<and>
   succeeds (forward ex_torch ex_layer 5 None None None) 1"
proof -
  have h: "never_raises ex_torch ex_layer"
    by (simp add: never_raises_def ex_torch_def ex_layer_def ex_adapter_def
        adapter_never_raises_def total_def succeeds_def)
  from forward_precondition [of ex_torch ex_layer 5 0 None None 1 "[]"] h
  show ?thesis by simp
qed

text \<open>
  C10. When the general self-attention mask is not \<open>None\<close>, the assertion fails before
  anything else happens: the call raises \<open>AssertionError\<close> in the state it started in, for
  arbitrary collaborators, and with the calls recorded the log is as before the call, so
  no sub-module, dropout or tensor addition was invoked.
\<close>

theorem failing_precondition_invokes_nothing:
  "forward T L x (Some m) pm em s = (Inl AssertionError, s) \<and>
   forward (traced_torch T) (traced_layer L) x (Some m) pm em (s, cs)
     = (Inl AssertionError, (s, cs))"
  by (simp add: forward_def)

section \<open>The order of operations in the forward pass\<close>

text \<open>
  A call with no general mask returns \<open>(y, w)\<close> exactly when the thirteen steps below return
  one after the other, each on the result and in the state of the step before.
\<close>

lemma forward_Inr_iff:
  "forward T L x None pm em s = (Inr (y, w), s') \<longleftrightarrow>
    (\<exists>x1 s1 x2 s2 x3 s3 x4 s4 x5 s5 x6 s6 x7 s7 x8 s8 x9 s9 x10 s10 x11 s11 x12 s12.
       self_attn L x x x pm False em s = (Inr (x1, w), s1) \<and>
       apply_adapter T (self_attn_adapter L) x1 s1 = (Inr x2, s2) \<and>
       F_dropout T x2 (dropout L) (training L) s2 = (Inr x3, s3) \<and>
       tensor_add T x x3 s3 = (Inr x4, s4) \<and>
       self_attn_layer_norm L x4 s4 = (Inr x5, s5) \<and>
       fc1 L x5 s5 = (Inr x6, s6) \<and>
       activation_fn L x6 s6 = (Inr x7, s7) \<and>
       F_dropout T x7 (activation_dropout L) (training L) s7 = (Inr x8, s8) \<and>
       fc2 L x8 s8 = (Inr x9, s9) \<and>
       F_dropout T x9 (dropout L) (training L) s9 = (Inr x10, s10) \<and>
       apply_adapter T (ff_adapter L) x10 s10 = (Inr x11, s11) \<and>
       tensor_add T x5 x11 s11 = (Inr x12, s12) \<and>
       final_layer_norm L x12 s12 = (Inr y, s'))"
  apply (simp add: forward_def ebind_Inr_iff split_beta)
  apply (rule iffI; clarify)
   apply (intro exI conjI; assumption)
  apply (intro exI conjI; (assumption | rule refl))
  done

text \<open>
  C1, as the code has it. In a run that returns \<open>(y, w)\<close>, the calls are made in this
  order: self-attention; the calls of the self-attention-side adapter, when the layer has one;
  the output dropout; the residual add; the post-attention normalization; the first affine
  transform; the nonlinearity; the activation dropout; the second affine transform; the
  output dropout; the calls of the feed-forward-side adapter, when the layer has one; the
  residual add; the final normalization. Each call is made on the result of the call before:
  the self-attention-side adapter is applied to the attention output \<open>x1\<close>, the output
  dropout of that sub-block to the adapter's result \<open>x2\<close>, and the residual add takes the
  input \<open>x\<close> and the dropout's result \<open>x3\<close>; in the feed-forward sub-block the output
  dropout is applied to the result \<open>x9\<close> of the second affine transform, the
  feed-forward-side adapter to the dropout's result \<open>x10\<close>, and the residual add takes the
  anchor \<open>x5\<close> and the adapter's result \<open>x11\<close>. So each adapter is applied before the
  residual add of its sub-block; the self-attention-side adapter is applied before the output
  dropout of its sub-block, the feed-forward-side adapter after the output dropout of its
  sub-block, to the dropout's result. Recording the calls does not change the run: the plain
  layer returns the same result in the same state.
\<close>

theorem forward_adapter_placement:
  assumes "forward (traced_torch T) (traced_layer L) x None pm em (s, cs)
             = (Inr (y, w), (s', cs'))"
  shows "forward T L x None pm em s = (Inr (y, w), s') \<and>
         (\<exists>x1 s1 x2 s2 x3 s3 x4 s4 x5 s5 x6 s6 x7 s7 x8 s8 x9 s9 x10 s10 x11 s11 x12 s12.
            self_attn L x x x pm False em s = (Inr (x1, w), s1) \<and>
            apply_adapter T (self_attn_adapter L) x1 s1 = (Inr x2, s2) \<and>
            F_dropout T x2 (dropout L) (training L) s2 = (Inr x3, s3) \<and>
            tensor_add T x x3 s3 = (Inr x4, s4) \<and>
            self_attn_layer_norm L x4 s4 = (Inr x5, s5) \<and>
            fc1 L x5 s5 = (Inr x6, s6) \<and>
            activation_fn L x6 s6 = (Inr x7, s7) \<and>
            F_dropout T x7 (activation_dropout L) (training L) s7 = (Inr x8, s8) \<and>
            fc2 L x8 s8 = (Inr x9, s9) \<and>
            F_dropout T x9 (dropout L) (training L) s9 = (Inr x10, s10) \<and>
            apply_adapter T (ff_adapter L) x10 s10 = (Inr x11, s11) \<and>
            tensor_add T x5 x11 s11 = (Inr x12, s12) \<and>
            final_layer_norm L x12 s12 = (Inr y, s')) \<and>
         cs' = cs @ [Call_self_attn] @
           adapter_calls Call_self_attn_adapter (self_attn_adapter L) @
           [Call_F_dropout (dropout L) (training L), Call_tensor_add, Call_self_attn_layer_norm,
            Call_fc1, Call_activation_fn, Call_F_dropout (activation_dropout L) (training L),
            Call_fc2, Call_F_dropout (dropout L) (training L)] @
           adapter_calls Call_ff_adapter (ff_adapter L) @
           [Call_tensor_add, Call_final_layer_norm]"
proof -
  have run: "forward T L x None pm em s = (Inr (y, w), s') \<and>
         cs' = cs @ [Call_self_attn] @
           adapter_calls Call_self_attn_adapter (self_attn_adapter L) @
           [Call_F_dropout (dropout L) (training L), Call_tensor_add, Call_self_attn_layer_norm,
            Call_fc1, Call_activation_fn, Call_F_dropout (activation_dropout L) (training L),
            Call_fc2, Call_F_dropout (dropout L) (training L)] @
           adapter_calls Call_ff_adapter (ff_adapter L) @
           [Call_tensor_add, Call_final_layer_norm]"
    using assms
    apply (simp add: forward_def ebind_Inr_iff split_beta traced_layer_def
        apply_adapter_traced_Inr_iff)
    apply (auto simp: traced_torch_def)
    done
  then have plain: "forward T L x None pm em s = (Inr (y, w), s')" ..
  note chain = iffD1 [OF forward_Inr_iff plain]
  from run chain show ?thesis by (intro conjI) (erule conjunct1, assumption, erule conjunct2)
qed

theorem forward_adapter_placement_witness:
  "forward (traced_torch ex_torch) (traced_layer ex_layer) 5 None None None (1, [])
     = (Inr (4, None), (4,
         [Call_self_attn,
          Call_self_attn_adapter Part_fc1, Call_self_attn_adapter Part_activation_fn,
          Call_self_attn_adapter Part_fc2, Call_tensor_add,
          Call_F_dropout 0.1 True, Call_tensor_add, Call_self_attn_layer_norm,
          Call_fc1, Call_activation_fn, Call_F_dropout 0.2 True, Call_fc2,
          Call_F_dropout 0.1 True,
          Call_ff_adapter Part_fc1, Call_ff_adapter Part_activation_fn,
          Call_ff_adapter Part_fc2, Call_tensor_add,
          Call_tensor_add, Call_final_layer_norm])) \<and>
   forward ex_torch ex_layer 5 None None None 1 = (Inr (4, None), 4) \<and>
   fc2 ex_layer 13 3 = (Inr 9, 3) \<and>
   F_dropout ex_torch 9 (dropout ex_layer) (training ex_layer) 3 = (Inr 0, 4) \<and>
   apply_adapter ex_torch (ff_adapter ex_layer) 0 4 = (Inr 2, 4) \<and>
   tensor_add ex_torch 4 2 4 = (Inr 6, 4) \<and>
   final_layer_norm ex_layer 6 4 = (Inr 4, 4)"
proof -
  have h: "forward (traced_torch ex_torch) (traced_layer ex_layer) 5 None None None (1, [])
     = (Inr (4, None), (4,
         [Call_self_attn,
          Call_self_attn_adapter Part_fc1, Call_self_attn_adapter Part_activation_fn,
          Call_self_attn_adapter Part_fc2, Call_tensor_add,
          Call_F_dropout 0.1 True, Call_tensor_add, Call_self_attn_layer_norm,
          Call_fc1, Call_activation_fn, Call_F_dropout 0.2 True, Call_fc2,
          Call_F_dropout 0.1 True,
          Call_ff_adapter Part_fc1, Call_ff_adapter Part_activation_fn,
          Call_ff_adapter Part_fc2, Call_tensor_add,
          Call_tensor_add, Call_final_layer_norm]))"
    by (simp add: forward_def ex_torch_def ex_layer_def ex_adapter_def apply_adapter_def
        Adapter_forward_def ebind_def traced_torch_def traced_layer_def traced_adapter_def
        logged_def)
  have ops:
    "fc2 ex_layer 13 3 = (Inr 9, 3)"
    "F_dropout ex_torch 9 (dropout ex_layer) (training ex_layer) 3 = (Inr 0, 4)"
    "apply_adapter ex_torch (ff_adapter ex_layer) 0 4 = (Inr 2, 4)"
    "tensor_add ex_torch 4 2 4 = (Inr 6, 4)"
    "final_layer_norm ex_layer 6 4 = (Inr 4, 4)"
    by (simp_all add: ex_torch_def ex_layer_def ex_adapter_def apply_adapter_def
        Adapter_forward_def ebind_def)
  from forward_adapter_placement [OF h] have
    "forward ex_torch ex_layer 5 None None None 1 = (Inr (4, None), 4)" ..
  with h ops show ?thesis by (intro conjI)
qed

text \<open>
  C1, as the specification words it, fails in the feed-forward sub-block. The scalar layer
  in training mode, on input \<open>5\<close> with the generator at \<open>1\<close>: the output dropout of the
  feed-forward sub-block zeroes its input, and the adapter, applied after it, turns the zero
  into \<open>2\<close>, so the layer returns \<open>4\<close>. With the adapter before that dropout, as the rule
  says, the dropout would zero the adapter's result and the layer would return \<open>2\<close>.
\<close>

theorem forward_adapters_before_dropout_counterexample:
  "forward ex_torch ex_layer 5 None None None 1 = (Inr (4, None), 4) \<and>
   forward_adapters_before_dropout ex_torch ex_layer 5 None None None 1 = (Inr (2, None), 4) \<and>
   forward ex_torch ex_layer 5 None None None 1
     \<noteq> forward_adapters_before_dropout ex_torch ex_layer 5 None None None 1"
  by (simp add: forward_def forward_adapters_before_dropout_def ex_torch_def ex_layer_def
      ex_adapter_def apply_adapter_def Adapter_forward_def ebind_def)

text \<open>
  C2. The feed-forward sub-block. A call returns \<open>(y, w)\<close> exactly when, after the
  post-attention normalization has returned the residual anchor \<open>x5\<close>: the first affine
  transform returns \<open>x6\<close> on \<open>x5\<close>, the nonlinearity \<open>x7\<close> on \<open>x6\<close>, the activation dropout
  \<open>x8\<close> on \<open>x7\<close>, the second affine transform \<open>x9\<close> on \<open>x8\<close>, the output dropout \<open>x10\<close> on
  \<open>x9\<close>, the feed-forward-side adapter \<open>x11\<close> on \<open>x10\<close>, the sum of the anchor \<open>x5\<close> and
  \<open>x11\<close> is \<open>x12\<close>, and the final normalization returns \<open>y\<close> on \<open>x12\<close>; each step runs in
  the state the step before left. Applying an adapter that does not exist returns the tensor
  as it is; applying one that exists is \<^verbatim>\<open>Adapter.forward\<close>.
\<close>

theorem forward_feed_forward_order:
  "(forward T L x None pm em s = (Inr (y, w), s') \<longleftrightarrow>
    (\<exists>x1 s1 x2 s2 x3 s3 x4 s4 x5 s5 x6 s6 x7 s7 x8 s8 x9 s9 x10 s10 x11 s11 x12 s12.
       self_attn L x x x pm False em s = (Inr (x1, w), s1) \<and>
       apply_adapter T (self_attn_adapter L) x1 s1 = (Inr x2, s2) \<and>
       F_dropout T x2 (dropout L) (training L) s2 = (Inr x3, s3) \<and>
       tensor_add T x x3 s3 = (Inr x4, s4) \<and>
       self_attn_layer_norm L x4 s4 = (Inr x5, s5) \<and>
       fc1 L x5 s5 = (Inr x6, s6) \<and>
       activation_fn L x6 s6 = (Inr x7, s7) \<and>
       F_dropout T x7 (activation_dropout L) (training L) s7 = (Inr x8, s8) \<and>
       fc2 L x8 s8 = (Inr x9, s9) \<and>
       F_dropout T x9 (dropout L) (training L) s9 = (Inr x10, s10) \<and>
       apply_adapter T (ff_adapter L) x10 s10 = (Inr x11, s11) \<and>
       tensor_add T x5 x11 s11 = (Inr x12, s12) \<and>
       final_layer_norm L x12 s12 = (Inr y, s'))) \<and>
   apply_adapter T None u s = (Inr u, s) \<and>
   apply_adapter T (Some a) u s = Adapter_forward T a u s"
  by (intro conjI, rule forward_Inr_iff) (simp_all add: apply_adapter_def)

section \<open>The attention weights\<close>

text \<open>
  C9. The second component of what \<open>forward\<close> returns is the weights value the
  self-attention call returned, unchanged; that call is made on the input as query, key and
  value, with \<open>need_weights = False\<close>, in the state \<open>forward\<close> started in. Whenever
  \<open>forward\<close> returns a pair, its second component is that value, and when no collaborator
  raises \<open>forward\<close> does return such a pair. In the scalar instance, where attention gives
  weights only when asked, the value is \<open>None\<close>.
\<close>

theorem forward_returns_attention_weights:
  "(forward T L x m pm em s = (Inr (y, w), s') \<longrightarrow>
      (\<exists>x1 s1. self_attn L x x x pm False em s = (Inr (x1, w), s1))) \<and>
   (never_raises T L \<longrightarrow>
      (\<exists>y w s' x1 s1. forward T L x None pm em s = (Inr (y, w), s') \<and>
                      self_attn L x x x pm False em s = (Inr (x1, w), s1)))"
proof (intro conjI impI)
  assume h: "forward T L x m pm em s = (Inr (y, w), s')"
  then have "m = None" by (cases m) (simp_all add: forward_def)
  with h have "forward T L x None pm em s = (Inr (y, w), s')" by simp
  then show "\<exists>x1 s1. self_attn L x x x pm False em s = (Inr (x1, w), s1)"
    unfolding forward_Inr_iff by blast
next
  assume "never_raises T L"
  then have "succeeds (forward T L x None pm em) s" by (rule succeeds_forward)
  then obtain y w s' where h: "forward T L x None pm em s = (Inr (y, w), s')"
    by (auto simp: succeeds_def)
  then obtain x1 s1 where "self_attn L x x x pm False em s = (Inr (x1, w), s1)"
    unfolding forward_Inr_iff by blast
  with h show "\<exists>y w s' x1 s1. forward T L x None pm em s = (Inr (y, w), s') \<and>
                      self_attn L x x x pm False em s = (Inr (x1, w), s1)"
    by blast
qed

theorem forward_returns_attention_weights_witness:
  "forward ex_torch ex_layer 5 None None None 1 = (Inr (4, None), 4) \<and>
   never_raises ex_torch ex_layer \<and>
   (\<exists>x1 s1. self_attn ex_layer 5 5 5 None False None 1 = (Inr (x1, None), s1))"
proof -
  have h: "forward ex_torch ex_layer 5 None None None 1 = (Inr (4, None), 4)"
    by (simp add: forward_def ex_torch_def ex_layer_def ex_adapter_def apply_adapter_def
        Adapter_forward_def ebind_def)
  have n: "never_raises ex_torch ex_layer"
    by (simp add: never_raises_def ex_torch_def ex_layer_def ex_adapter_def
        adapter_never_raises_def total_def succeeds_def)
  from forward_returns_attention_weights [of ex_torch ex_layer 5 None None None 1 4 None 4] h n
  show ?thesis by simp
qed

section \<open>Determinism in inference mode\<close>

lemma state_independent_ereturn: "state_independent (ereturn a)"
  by (simp add: state_independent_def)

lemma state_independent_eraise: "state_independent (eraise e)"
  by (simp add: state_independent_def)

lemma ebind_apply:
  "ebind m f s = (case fst (m s) of Inl e \<Rightarrow> (Inl e, snd (m s)) | Inr a \<Rightarrow> f a (snd (m s)))"
  by (simp add: ebind_def split: prod.splits sum.splits)

lemma state_independent_ebind:
  assumes "state_independent m" and "\<And>a. state_independent (f a)"
  shows "state_independent (ebind m f)"
  unfolding state_independent_def
proof (intro allI)
  fix s s'
  from assms(1) have eq: "fst (m s) = fst (m s')" by (simp add: state_independent_def)
  show "fst (ebind m f s) = fst (ebind m f s')"
  proof (cases "fst (m s)")
    case (Inl e)
    with eq have "fst (m s') = Inl e" by simp
    with Inl show ?thesis by (simp add: ebind_apply)
  next
    case (Inr a)
    with eq have "fst (m s') = Inr a" by simp
    moreover from assms(2) have "fst (f a (snd (m s))) = fst (f a (snd (m s')))"
      by (simp add: state_independent_def)
    ultimately show ?thesis using Inr by (simp add: ebind_apply)
  qed
qed

lemma state_independent_Adapter_forward:
  assumes "\<And>x. state_independent (Adapter.fc1 a x)"
    and "\<And>x. state_independent (Adapter.activation_fn a x)"
    and "\<And>x. state_independent (Adapter.fc2 a x)"
    and "\<And>x y. state_independent (tensor_add T x y)"
  shows "state_independent (Adapter_forward T a x)"
  unfolding Adapter_forward_def
  by (intro state_independent_ebind assms)

lemma state_independent_apply_adapter:
  assumes "adapter_deterministic adapter" and "\<And>x y. state_independent (tensor_add T x y)"
  shows "state_independent (apply_adapter T adapter x)"
  using assms
  by (cases adapter)
     (simp_all add: apply_adapter_def adapter_deterministic_def state_independent_ereturn
        state_independent_Adapter_forward)

lemma state_independent_forward:
  assumes "deterministic_in_inference T L" and "training L = False"
  shows "state_independent (forward T L x m pm em)"
proof (cases m)
  case (Some a)
  then show ?thesis by (simp add: forward_def state_independent_eraise)
next
  case None
  from assms(1) have
    attn: "\<And>q k v pm nw am. state_independent (self_attn L q k v pm nw am)" and
    dr: "\<And>x p. state_independent (F_dropout T x p False)" and
    add: "\<And>x y. state_independent (tensor_add T x y)" and
    un: "\<And>x. state_independent (self_attn_layer_norm L x)"
      "\<And>x. state_independent (fc1 L x)"
      "\<And>x. state_independent (activation_fn L x)"
      "\<And>x. state_independent (fc2 L x)"
      "\<And>x. state_independent (final_layer_norm L x)" and
    ad: "adapter_deterministic (self_attn_adapter L)" "adapter_deterministic (ff_adapter L)"
    by (simp_all add: deterministic_in_inference_def)
  note ad' = state_independent_apply_adapter [OF ad(1) add]
    state_independent_apply_adapter [OF ad(2) add]
  show ?thesis
    unfolding forward_def
    by (simp add: None Let_def split_def assms(2))
       (intro state_independent_ebind state_independent_ereturn attn dr add un ad')
qed

text \<open>
  C8. In inference mode (\<open>training = False\<close>), with collaborators that are deterministic
  functions of their inputs and parameters and a dropout that is so when it is not training,
  the outcome of \<open>forward\<close> does not depend on the state it is called in: two calls on the
  same inputs, in whatever states, have the same outcome.
\<close>

theorem forward_deterministic_in_inference:
  assumes "deterministic_in_inference T L" and "training L = False"
  shows "fst (forward T L x m pm em s) = fst (forward T L x m pm em s')"
  using state_independent_forward [OF assms] by (simp add: state_independent_def)

theorem forward_deterministic_in_inference_witness:
  "deterministic_in_inference ex_torch (ex_layer\<lparr>training := False\<rparr>) \<and>
   training (ex_layer\<lparr>training := False\<rparr>) = False \<and>
   fst (forward ex_torch (ex_layer\<lparr>training := False\<rparr>) 5 None None None 1)
     = Inr (201, None) \<and>
   fst (forward ex_torch (ex_layer\<lparr>training := False\<rparr>) 5 None None None 2)
     = Inr (201, None)"
proof -
  have d: "deterministic_in_inference ex_torch (ex_layer\<lparr>training := False\<rparr>)"
    by (simp add: deterministic_in_inference_def ex_torch_def ex_layer_def ex_adapter_def
        adapter_deterministic_def state_independent_def)
  have t: "training (ex_layer\<lparr>training := False\<rparr>) = False" by simp
  have v: "fst (forward ex_torch (ex_layer\<lparr>training := False\<rparr>) 5 None None None 1)
      = Inr (201, None)"
    by (simp add: forward_def ex_torch_def ex_layer_def ex_adapter_def apply_adapter_def
        Adapter_forward_def ebind_def)
  from forward_deterministic_in_inference [OF d t, of 5 None None None 1 2] d v
  show ?thesis by simp
qed

text \<open>In training mode the outcome of the scalar layer does depend on the generator.\<close>

lemma training_mode_depends_on_state:
  "fst (forward ex_torch ex_layer 5 None None None 1)
     \<noteq> fst (forward ex_torch ex_layer 5 None None None 2)"
  by (simp add: forward_def ex_torch_def ex_layer_def ex_adapter_def apply_adapter_def
        Adapter_forward_def ebind_def)

section \<open>Construction: adapters exist only when configured\<close>

lemma build_adapter_falsy:
  "d = None \<or> d = Some 0 \<Longrightarrow> build_adapter E e d n = ereturn None"
  by (auto simp: build_adapter_def)

lemma init_self_attn_adapter:
  assumes "TransformerSentenceEncoderLayer_init E c s = (Inr L, s')"
    and "self_attn_adapter_dim c = None \<or> self_attn_adapter_dim c = Some 0"
  shows "self_attn_adapter L = None"
  using assms(1)
  unfolding TransformerSentenceEncoderLayer_init_def build_adapter_falsy [OF assms(2)]
  by (auto simp: ebind_Inr_iff)

lemma init_ff_adapter:
  assumes "TransformerSentenceEncoderLayer_init E c s = (Inr L, s')"
    and "ffn_adapter_dim c = None \<or> ffn_adapter_dim c = Some 0"
  shows "ff_adapter L = None"
  using assms(1)
  unfolding TransformerSentenceEncoderLayer_init_def build_adapter_falsy [OF assms(2)]
  by (auto simp: ebind_Inr_iff)

lemma forward_eq_without_self_attn_adapter:
  "self_attn_adapter L = None \<Longrightarrow>
   forward T L x m pm em = forward_without_self_attn_adapter T L x m pm em"
  by (simp add: forward_def forward_without_self_attn_adapter_def apply_adapter_def)

lemma forward_eq_without_ff_adapter:
  "ff_adapter L = None \<Longrightarrow>
   forward T L x m pm em = forward_without_ff_adapter T L x m pm em"
  by (simp add: forward_def forward_without_ff_adapter_def apply_adapter_def)

text \<open>
  C6. When the constructor returns a layer and the configured bottleneck dimension of an
  adapter is \<open>None\<close> or \<open>0\<close>, the layer has no such adapter attribute, and its forward pass
  is the forward pass with the step that applies that adapter left out, on every input, for
  each of the two adapters on its own.
\<close>

theorem adapter_structurally_absent:
  assumes "TransformerSentenceEncoderLayer_init E c s = (Inr L, s')"
  shows "(self_attn_adapter_dim c = None \<or> self_attn_adapter_dim c = Some 0 \<longrightarrow>
            self_attn_adapter L = None \<and>
            (\<forall>T x m pm em.
               forward T L x m pm em = forward_without_self_attn_adapter T L x m pm em)) \<and>
         (ffn_adapter_dim c = None \<or> ffn_adapter_dim c = Some 0 \<longrightarrow>
            ff_adapter L = None \<and>
            (\<forall>T x m pm em.
               forward T L x m pm em = forward_without_ff_adapter T L x m pm em))"
  using init_self_attn_adapter [OF assms] init_ff_adapter [OF assms]
    forward_eq_without_self_attn_adapter [of L] forward_eq_without_ff_adapter [of L]
  by blast

theorem adapter_structurally_absent_witness:
  "\<exists>L s'. TransformerSentenceEncoderLayer_init sh_modules sh_config_no_adapters 0 = (Inr L, s') \<and>
     self_attn_adapter_dim sh_config_no_adapters = Some 0 \<and> ffn_adapter_dim sh_config_no_adapters = None \<and>
     self_attn_adapter L = None \<and> ff_adapter L = None \<and>
     forward sh_torch L [2, 1, 4] None None None 0
       = forward_without_self_attn_adapter sh_torch L [2, 1, 4] None None None 0 \<and>
     forward sh_torch L [2, 1, 4] None None None 0
       = forward_without_ff_adapter sh_torch L [2, 1, 4] None None None 0 \<and>
     forward sh_torch L [2, 1, 4] None None None 0 = (Inr ([2, 1, 4], None), 0)"
proof -
  obtain L where L: "L = \<lparr>training = True, embedding_dim = 4, dropout = 0.1,
      activation_dropout = 0.1, activation_fn = ereturn, self_attn = sh_attention 4,
      self_attn_layer_norm = sh_norm 4, fc1 = sh_linear 4 8, fc2 = sh_linear 8 4,
      final_layer_norm = sh_norm 4, self_attn_adapter = None, ff_adapter = None\<rparr>" by simp
  have h: "TransformerSentenceEncoderLayer_init sh_modules sh_config_no_adapters 0 = (Inr L, 0)"
    by (simp add: L TransformerSentenceEncoderLayer_init_def sh_modules_def sh_config_no_adapters_def
        default_config_def build_adapter_def ebind_def)
  have d: "self_attn_adapter_dim sh_config_no_adapters = Some 0" "ffn_adapter_dim sh_config_no_adapters = None"
    by (simp_all add: sh_config_no_adapters_def default_config_def)
  have v: "forward sh_torch L [2, 1, 4] None None None 0 = (Inr ([2, 1, 4], None), 0)"
    by (simp add: L forward_def sh_torch_def apply_adapter_def ebind_def sh_attention_def
        sh_norm_def sh_linear_def)
  from adapter_structurally_absent [OF h] d h v show ?thesis by auto
qed

section \<open>Shapes\<close>

text \<open>The shape-only layer is the layer the constructor builds from \<open>sh_config\<close>.\<close>

lemma sh_layer_constructed:
  "TransformerSentenceEncoderLayer_init sh_modules sh_config 0 = (Inr sh_layer, 0)"
  by (simp add: TransformerSentenceEncoderLayer_init_def sh_modules_def sh_config_def
      default_config_def sh_layer_def build_adapter_def Adapter_init_def sh_adapter_def ebind_def)

lemma maps_shapeD:
  "maps_shape shape sh sh' f \<Longrightarrow> shape x = sh \<Longrightarrow>
   \<exists>y s'. f x s = (Inr y, s') \<and> shape y = sh'"
  by (simp add: maps_shape_def)

lemma apply_adapter_shape:
  assumes c: "adapter_shape_contract shape lead d adapter"
    and add: "\<And>u v s. shape u = lead @ [d] \<Longrightarrow> shape v = lead @ [d] \<Longrightarrow>
        \<exists>z s'. tensor_add T u v s = (Inr z, s') \<and> shape z = lead @ [d]"
    and x: "shape x = lead @ [d]"
  shows "\<exists>y s'. apply_adapter T adapter x s = (Inr y, s') \<and> shape y = lead @ [d]"
proof (cases adapter)
  case None
  with x show ?thesis by (simp add: apply_adapter_def)
next
  case (Some a)
  with c obtain k where
    f1: "maps_shape shape (lead @ [d]) (lead @ [k]) (Adapter.fc1 a)" and
    ac: "maps_shape shape (lead @ [k]) (lead @ [k]) (Adapter.activation_fn a)" and
    f2: "maps_shape shape (lead @ [k]) (lead @ [d]) (Adapter.fc2 a)"
    by (auto simp: adapter_shape_contract_def)
  from maps_shapeD [OF f1 x] obtain h1 s1 where
    1: "Adapter.fc1 a x s = (Inr h1, s1)" "shape h1 = lead @ [k]" by blast
  from maps_shapeD [OF ac 1(2)] obtain h2 s2 where
    2: "Adapter.activation_fn a h1 s1 = (Inr h2, s2)" "shape h2 = lead @ [k]" by blast
  from maps_shapeD [OF f2 2(2)] obtain h3 s3 where
    3: "Adapter.fc2 a h2 s2 = (Inr h3, s3)" "shape h3 = lead @ [d]" by blast
  from add [OF 3(2) x] obtain y s4 where
    4: "tensor_add T h3 x s3 = (Inr y, s4)" "shape y = lead @ [d]" by blast
  from 1 2 3 4 have "Adapter_forward T a x s = (Inr y, s4)"
    by (simp add: Adapter_forward_def ebind_Inr)
  with 4(2) Some show ?thesis by (simp add: apply_adapter_def)
qed

text \<open>
  C7. On an input of shape \<open>[n, b, d]\<close>, with \<open>d\<close> the embedding dimension of the layer,
  and collaborators that keep to their interface on that shape, \<open>forward\<close> returns, and the
  first component of what it returns has the shape \<open>[n, b, d]\<close> of the input.
\<close>

theorem forward_preserves_shape:
  assumes c: "shape_contract shape T L pm em n b"
    and x: "shape x = [n, b, embedding_dim L]"
  shows "\<exists>y w s'. forward T L x None pm em s = (Inr (y, w), s') \<and>
                  shape y = [n, b, embedding_dim L]"
proof -
  let ?sh = "[n, b, embedding_dim L]"
  from c have
    attn: "\<And>x s. shape x = ?sh \<Longrightarrow>
        \<exists>y w s'. self_attn L x x x pm False em s = (Inr (y, w), s') \<and> shape y = ?sh" and
    dr: "maps_shape shape ?sh ?sh (\<lambda>x. F_dropout T x (dropout L) (training L))" and
    add: "\<And>u v s. shape u = ?sh \<Longrightarrow> shape v = ?sh \<Longrightarrow>
        \<exists>z s'. tensor_add T u v s = (Inr z, s') \<and> shape z = ?sh" and
    ln1: "maps_shape shape ?sh ?sh (self_attn_layer_norm L)" and
    ln2: "maps_shape shape ?sh ?sh (final_layer_norm L)" and
    a1: "adapter_shape_contract shape [n, b] (embedding_dim L) (self_attn_adapter L)" and
    a2: "adapter_shape_contract shape [n, b] (embedding_dim L) (ff_adapter L)"
    by (simp_all add: shape_contract_def)
  from c obtain f where
    f1: "maps_shape shape ?sh [n, b, f] (fc1 L)" and
    ac: "maps_shape shape [n, b, f] [n, b, f] (activation_fn L)" and
    adr: "maps_shape shape [n, b, f] [n, b, f]
            (\<lambda>x. F_dropout T x (activation_dropout L) (training L))" and
    f2: "maps_shape shape [n, b, f] ?sh (fc2 L)"
    by (auto simp: shape_contract_def)
  have add': "\<And>u v s. shape u = [n, b] @ [embedding_dim L] \<Longrightarrow>
        shape v = [n, b] @ [embedding_dim L] \<Longrightarrow>
        \<exists>z s'. tensor_add T u v s = (Inr z, s') \<and> shape z = [n, b] @ [embedding_dim L]"
    using add by simp
  from attn [OF x] obtain x1 w s1 where
    1: "self_attn L x x x pm False em s = (Inr (x1, w), s1)" "shape x1 = ?sh" by blast
  from apply_adapter_shape [OF a1 add', of x1 s1] 1(2) obtain x2 s2 where
    2: "apply_adapter T (self_attn_adapter L) x1 s1 = (Inr x2, s2)" "shape x2 = ?sh" by auto
  from maps_shapeD [OF dr 2(2)] obtain x3 s3 where
    3: "F_dropout T x2 (dropout L) (training L) s2 = (Inr x3, s3)" "shape x3 = ?sh" by blast
  from add [OF x 3(2)] obtain x4 s4 where
    4: "tensor_add T x x3 s3 = (Inr x4, s4)" "shape x4 = ?sh" by blast
  from maps_shapeD [OF ln1 4(2)] obtain x5 s5 where
    5: "self_attn_layer_norm L x4 s4 = (Inr x5, s5)" "shape x5 = ?sh" by blast
  from maps_shapeD [OF f1 5(2)] obtain x6 s6 where
    6: "fc1 L x5 s5 = (Inr x6, s6)" "shape x6 = [n, b, f]" by blast
  from maps_shapeD [OF ac 6(2)] obtain x7 s7 where
    7: "activation_fn L x6 s6 = (Inr x7, s7)" "shape x7 = [n, b, f]" by blast
  from maps_shapeD [OF adr 7(2)] obtain x8 s8 where
    8: "F_dropout T x7 (activation_dropout L) (training L) s7 = (Inr x8, s8)"
      "shape x8 = [n, b, f]" by blast
  from maps_shapeD [OF f2 8(2)] obtain x9 s9 where
    9: "fc2 L x8 s8 = (Inr x9, s9)" "shape x9 = ?sh" by blast
  from maps_shapeD [OF dr 9(2)] obtain x10 s10 where
    10: "F_dropout T x9 (dropout L) (training L) s9 = (Inr x10, s10)" "shape x10 = ?sh" by blast
  from apply_adapter_shape [OF a2 add', of x10 s10] 10(2) obtain x11 s11 where
    11: "apply_adapter T (ff_adapter L) x10 s10 = (Inr x11, s11)" "shape x11 = ?sh" by auto
  from add [OF 5(2) 11(2)] obtain x12 s12 where
    12: "tensor_add T x5 x11 s11 = (Inr x12, s12)" "shape x12 = ?sh" by blast
  from maps_shapeD [OF ln2 12(2)] obtain y s' where
    13: "final_layer_norm L x12 s12 = (Inr y, s')" "shape y = ?sh" by blast
  from 1(1) 2(1) 3(1) 4(1) 5(1) 6(1) 7(1) 8(1) 9(1) 10(1) 11(1) 12(1) 13(1)
  have "forward T L x None pm em s = (Inr (y, w), s')"
    by (simp add: forward_def ebind_Inr)
  with 13(2) show ?thesis by blast
qed

theorem forward_preserves_shape_witness:
  "shape_contract id sh_torch sh_layer None None 2 1 \<and>
   id [2, 1, 4] = [2, 1, embedding_dim sh_layer] \<and>
   forward sh_torch sh_layer [2, 1, 4] None None None 0 = (Inr ([2, 1, 4], None), 0)"
proof -
  have c: "shape_contract id sh_torch sh_layer None None 2 1"
    by (simp add: shape_contract_def sh_torch_def sh_layer_def sh_adapter_def
        adapter_shape_contract_def maps_shape_def sh_linear_def sh_norm_def sh_attention_def)
  have x: "id [2, 1, 4] = [2, 1, embedding_dim sh_layer]" by (simp add: sh_layer_def)
  have v: "forward sh_torch sh_layer [2, 1, 4] None None None 0 = (Inr ([2, 1, 4], None), 0)"
    by (simp add: forward_def sh_torch_def sh_layer_def sh_adapter_def apply_adapter_def
        Adapter_forward_def ebind_def sh_attention_def sh_norm_def sh_linear_def)
  from forward_preserves_shape [OF c x, of 0] c x v show ?thesis by simp
qed

end
